theory Spec2Isabelle
  imports Main
begin

section \<open>JavaScript values\<close>

text \<open>
  The notes of the application are plain JavaScript objects whose fields hold scalars
  (strings, integer epoch milliseconds, \<open>null\<close>). A field that is absent reads as
  \<open>undefined\<close>: an object is a map from field names to values and \<open>None\<close> is
  \<open>undefined\<close>. Numbers are the integers; the result of \<open>Number(...)\<close> is an
  \<open>int option\<close> whose \<open>None\<close> is \<open>NaN\<close>.
\<close>

datatype jsval = JNull | JBool bool | JNum int | JStr string

type_synonym jsnote = "string \<Rightarrow> jsval option"

text \<open>Truthiness, as \<open>!x\<close>, \<open>x || y\<close> and \<open>if (x)\<close> test it.\<close>

fun truthy :: "jsval option \<Rightarrow> bool" where
  "truthy None = False"
| "truthy (Some JNull) = False"
| "truthy (Some (JBool b)) = b"
| "truthy (Some (JNum n)) = (n \<noteq> 0)"
| "truthy (Some (JStr s)) = (s \<noteq> [])"

text \<open>\<open>x || 0\<close>\<close>

definition or_zero :: "jsval option \<Rightarrow> jsval" where
  "or_zero x = (case x of None \<Rightarrow> JNum 0 | Some v \<Rightarrow> if truthy x then v else JNum 0)"

text \<open>
  \<open>Number(s)\<close> of a string: white space is trimmed, the empty string is 0, an optionally
  signed run of decimal digits is its value. Every other string is \<open>NaN\<close> here; the
  literals of JavaScript that are left out (fractions, exponents, radix prefixes,
  \<open>Infinity\<close>) do not occur as time stamps of the data model.
\<close>

definition is_ws :: "char \<Rightarrow> bool" where
  "is_ws c = (of_char c \<in> {9, 10, 11, 12, 13, 32 :: nat})"

definition trim :: "string \<Rightarrow> string" where
  "trim s = rev (dropWhile is_ws (rev (dropWhile is_ws s)))"

definition digit :: "char \<Rightarrow> nat option" where
  "digit c = (let n = (of_char c :: nat) in if 48 \<le> n \<and> n \<le> 57 then Some (n - 48) else None)"

fun digits :: "string \<Rightarrow> nat \<Rightarrow> nat option" where
  "digits [] acc = Some acc"
| "digits (c # cs) acc = (case digit c of None \<Rightarrow> None | Some d \<Rightarrow> digits cs (10 * acc + d))"

definition StringToNumber :: "string \<Rightarrow> int option" where
  "StringToNumber s =
     (case trim s of
        [] \<Rightarrow> Some 0
      | c # cs \<Rightarrow>
          if c = CHR ''-'' then (if cs = [] then None else map_option (\<lambda>n. - int n) (digits cs 0))
          else if c = CHR ''+'' then (if cs = [] then None else map_option int (digits cs 0))
          else map_option int (digits (c # cs) 0))"

fun Number :: "jsval \<Rightarrow> int option" where
  "Number JNull = Some 0"
| "Number (JBool b) = Some (if b then 1 else 0)"
| "Number (JNum n) = Some n"
| "Number (JStr s) = StringToNumber s"

text \<open>\<open>a > b\<close> on numbers: false as soon as one side is \<open>NaN\<close>.\<close>

fun js_gt :: "int option \<Rightarrow> int option \<Rightarrow> bool" where
  "js_gt (Some a) (Some b) = (a > b)"
| "js_gt _ _ = False"

section \<open>The conflict resolver\<close>

datatype side = Local | Remote

record merge_result =
  winner :: side
  merged :: jsnote

text \<open>
  \<open>mergeLastWriteWins(local, remote)\<close>. The local note is an object or \<open>null\<close>;
  the spread \<open>{ ...local, ...remote }\<close> is the map \<open>local ++ remote\<close>.
\<close>

definition mergeLastWriteWins :: "jsnote option \<Rightarrow> jsnote \<Rightarrow> merge_result" where
  "mergeLastWriteWins local remote =
     (case local of
        None \<Rightarrow> \<lparr>winner = Remote, merged = remote\<rparr>
      | Some loc \<Rightarrow>
          (let l = Number (or_zero (loc ''updatedAtMs''));
               r = Number (or_zero (remote ''updatedAtMs''))
           in if js_gt r l then \<lparr>winner = Remote, merged = loc ++ remote\<rparr>
              else \<lparr>winner = Local, merged = loc\<rparr>))"

section \<open>The local store\<close>

text \<open>
  The IndexedDB database of \<open>db.js\<close>: the object stores \<open>notes\<close> (key path
  \<open>noteId\<close>), \<open>outbox\<close> (key path \<open>opId\<close>, index \<open>queuedAtMs\<close>),
  \<open>driveMap\<close> (key path \<open>noteId\<close>) and \<open>syncMeta\<close> (key path \<open>key\<close>).
  The outbox is the list of its records in primary-key order. Every operation is one
  atomic request; a request with a key that is no string raises (numeric keys, which
  IndexedDB would take, are not note ids of the data model).
\<close>

datatype error = Error string

datatype op_type = Upsert | Delete

record op =
  opId :: string
  optype :: op_type
  op_noteId :: string
  queuedAtMs :: int

record mapping =
  map_noteId :: string
  driveFileId :: string
  md5 :: "string option"

record idb =
  noteStore :: "string \<Rightarrow> jsnote option"
  outbox :: "op list"
  driveMap :: "string \<Rightarrow> mapping option"
  syncMeta :: "string \<Rightarrow> jsval option"

text \<open>The key a note is stored under: its \<open>noteId\<close>.\<close>

definition note_key :: "jsnote \<Rightarrow> string option" where
  "note_key n = (case n ''noteId'' of Some (JStr s) \<Rightarrow> Some s | _ \<Rightarrow> None)"

definition DataError :: error where
  "DataError = Error ''DataError''"

definition TypeError :: error where
  "TypeError = Error ''TypeError''"

definition getNote :: "idb \<Rightarrow> string \<Rightarrow> jsnote option" where
  "getNote d noteId = noteStore d noteId"

definition putNote :: "idb \<Rightarrow> jsnote \<Rightarrow> error + idb" where
  "putNote d n =
     (case note_key n of
        None \<Rightarrow> Inl DataError
      | Some k \<Rightarrow> Inr (d\<lparr>noteStore := (noteStore d)(k \<mapsto> n)\<rparr>))"

text \<open>\<open>idx.getAll()\<close> on the index \<open>queuedAtMs\<close>: ascending, ties in primary-key order.\<close>

definition listOps :: "idb \<Rightarrow> op list" where
  "listOps d = sort_key queuedAtMs (outbox d)"

definition deleteOp :: "idb \<Rightarrow> string \<Rightarrow> idb" where
  "deleteOp d i = d\<lparr>outbox := filter (\<lambda>q. opId q \<noteq> i) (outbox d)\<rparr>"

definition getDriveMap :: "idb \<Rightarrow> string \<Rightarrow> mapping option" where
  "getDriveMap d noteId = driveMap d noteId"

definition putDriveMap :: "idb \<Rightarrow> mapping \<Rightarrow> idb" where
  "putDriveMap d m = d\<lparr>driveMap := (driveMap d)(map_noteId m \<mapsto> m)\<rparr>"

definition deleteDriveMap :: "idb \<Rightarrow> string \<Rightarrow> idb" where
  "deleteDriveMap d noteId = d\<lparr>driveMap := (driveMap d)(noteId := None)\<rparr>"

text \<open>\<open>req.result?.value ?? null\<close>\<close>

definition getMeta :: "idb \<Rightarrow> string \<Rightarrow> jsval" where
  "getMeta d k = (case syncMeta d k of None \<Rightarrow> JNull | Some v \<Rightarrow> v)"

definition setMeta :: "idb \<Rightarrow> string \<Rightarrow> jsval \<Rightarrow> idb" where
  "setMeta d k v = d\<lparr>syncMeta := (syncMeta d)(k \<mapsto> v)\<rparr>"

section \<open>The remote store\<close>

text \<open>
  The exports of \<open>driveApi.js\<close> wrap \<open>fetch\<close> requests to the remote store, which
  is no part of the repository. They are parameters here: each takes the state \<open>'r\<close> of
  the remote side, throws an \<open>Error\<close> or returns the value its JSDoc types, and leaves
  a new remote state. \<open>JSON.parse\<close> is a parameter too: it throws a
  \<open>SyntaxError\<close>, or yields \<open>null\<close>, an object, or another value (a number, a
  string, a boolean, an array), none of whose fields is a note's.
\<close>

record uploaded =
  up_id :: string
  md5Checksum :: "string option"

record drive_file =
  df_id :: string
  df_appProperties :: "(string \<Rightarrow> string option) option"

record change_file =
  appProperties :: "(string \<Rightarrow> string option) option"
  trashed :: bool

record change =
  fileId :: "string option"
  removed :: bool
  ch_file :: "change_file option"

record changes_page =
  changes :: "change list option"
  nextPageToken :: "string option"
  newStartPageToken :: "string option"

datatype parsed = SyntaxError | JsonNull | JsonOther | JsonObject jsnote

record 'r driveApi =
  createJsonFileMultipart ::
    "string \<Rightarrow> string \<Rightarrow> jsnote \<Rightarrow> (string \<Rightarrow> string option) \<Rightarrow> 'r \<Rightarrow> (error + uploaded) \<times> 'r"
  updateJsonFileMultipart ::
    "string \<Rightarrow> string \<Rightarrow> jsnote \<Rightarrow> (string \<Rightarrow> string option) \<Rightarrow> 'r \<Rightarrow> (error + uploaded) \<times> 'r"
  deleteFile :: "string \<Rightarrow> 'r \<Rightarrow> (error + unit) \<times> 'r"
  downloadFile :: "string \<Rightarrow> 'r \<Rightarrow> (error + string) \<times> 'r"
  getStartPageToken :: "'r \<Rightarrow> (error + string) \<times> 'r"
  listChanges :: "jsval \<Rightarrow> 'r \<Rightarrow> (error + changes_page) \<times> 'r"
  findNoteFileByNoteId :: "string \<Rightarrow> 'r \<Rightarrow> (error + string option) \<times> 'r"
  listAllNoteFiles :: "'r \<Rightarrow> (error + drive_file list) \<times> 'r"
  JSON_parse :: "string \<Rightarrow> parsed"

text \<open>The remote calls a run has issued, in order.\<close>

datatype call =
    CreateCall string jsnote
  | UpdateCall string jsnote
  | DeleteCall string
  | DownloadCall string
  | StartTokenCall
  | ListChangesCall jsval
  | FindCall string
  | ListAllCall

record 'r world =
  db :: idb
  drive :: 'r
  calls :: "call list"

section \<open>Sequencing\<close>

text \<open>
  An \<open>async\<close> function is a function of the world that returns a value or the error it
  threw, with the world as it is then. \<open>andThen\<close> is \<open>await\<close> followed by the rest of
  the body: an error ends the body there.
\<close>

type_synonym ('a, 'r) io = "'r world \<Rightarrow> (error + 'a) \<times> 'r world"

definition ret :: "'a \<Rightarrow> ('a, 'r) io" where
  "ret x = (\<lambda>w. (Inr x, w))"

definition throw :: "error \<Rightarrow> ('a, 'r) io" where
  "throw e = (\<lambda>w. (Inl e, w))"

definition andThen :: "('a, 'r) io \<Rightarrow> ('a \<Rightarrow> ('b, 'r) io) \<Rightarrow> ('b, 'r) io" where
  "andThen m f = (\<lambda>w. case m w of (Inl e, w1) \<Rightarrow> (Inl e, w1) | (Inr x, w1) \<Rightarrow> f x w1)"

definition db_read :: "(idb \<Rightarrow> 'a) \<Rightarrow> ('a, 'r) io" where
  "db_read f = (\<lambda>w. (Inr (f (db w)), w))"

definition db_write :: "(idb \<Rightarrow> idb) \<Rightarrow> (unit, 'r) io" where
  "db_write f = (\<lambda>w. (Inr (), w\<lparr>db := f (db w)\<rparr>))"

definition db_try :: "(idb \<Rightarrow> error + idb) \<Rightarrow> (unit, 'r) io" where
  "db_try f = (\<lambda>w. case f (db w) of Inl e \<Rightarrow> (Inl e, w) | Inr d \<Rightarrow> (Inr (), w\<lparr>db := d\<rparr>))"

definition remote_call :: "call \<Rightarrow> ('r \<Rightarrow> (error + 'a) \<times> 'r) \<Rightarrow> ('a, 'r) io" where
  "remote_call c f =
     (\<lambda>w. case f (drive w) of (res, r) \<Rightarrow> (res, w\<lparr>drive := r, calls := calls w @ [c]\<rparr>))"

text \<open>A file id or token that is a non-empty string is truthy; \<open>x || null\<close>.\<close>

definition truthy_str :: "string option \<Rightarrow> string option" where
  "truthy_str x = (case x of None \<Rightarrow> None | Some s \<Rightarrow> if s = [] then None else Some s)"

text \<open>\<open>msg.includes(p)\<close>\<close>

fun str_includes :: "string \<Rightarrow> string \<Rightarrow> bool" where
  "str_includes [] p = (p = [])"
| "str_includes (c # cs) p = (take (length p) (c # cs) = p \<or> str_includes cs p)"

section \<open>The push pipeline\<close>

definition noteFileName :: "string \<Rightarrow> string" where
  "noteFileName noteId = ''note-'' @ noteId @ ''.json''"

definition contentType :: string where
  "contentType = ''application/json''"

text \<open>\<open>pushUpsert(db, auth, note)\<close>\<close>

definition pushUpsert :: "'r driveApi \<Rightarrow> jsnote \<Rightarrow> (unit, 'r) io" where
  "pushUpsert api nt =
     (case note_key nt of
        None \<Rightarrow> throw DataError
      | Some noteId \<Rightarrow>
          andThen (db_read (\<lambda>d. getDriveMap d noteId)) (\<lambda>mapping.
          andThen
            (case truthy_str (map_option driveFileId mapping) of
               Some f \<Rightarrow> ret (Some f)
             | None \<Rightarrow>
                 andThen (remote_call (FindCall noteId) (findNoteFileByNoteId api noteId))
                   (\<lambda>found. ret (truthy_str found)))
            (\<lambda>fileId.
          let props = [''noteId'' \<mapsto> noteId, ''kind'' \<mapsto> ''note''] in
          case fileId of
            None \<Rightarrow>
              andThen
                (remote_call (CreateCall (noteFileName noteId) nt)
                   (createJsonFileMultipart api (noteFileName noteId) contentType nt props))
                (\<lambda>created. db_write (\<lambda>d. putDriveMap d
                   \<lparr>map_noteId = noteId, driveFileId = up_id created, md5 = md5Checksum created\<rparr>))
          | Some f \<Rightarrow>
              andThen
                (remote_call (UpdateCall f nt) (updateJsonFileMultipart api f contentType nt props))
                (\<lambda>updated. db_write (\<lambda>d. putDriveMap d
                   \<lparr>map_noteId = noteId, driveFileId = up_id updated, md5 = md5Checksum updated\<rparr>)))))"

text \<open>
  \<open>pushDelete(db, auth, noteId)\<close>. The \<open>catch\<close> swallows an error whose message
  includes \<open>File not found\<close> or \<open>404\<close> and rethrows every other one.
\<close>

definition deleteFile_caught :: "'r driveApi \<Rightarrow> string \<Rightarrow> (unit, 'r) io" where
  "deleteFile_caught api f =
     (\<lambda>w. case remote_call (DeleteCall f) (deleteFile api f) w of
        (Inl (Error msg), w1) \<Rightarrow>
          if \<not> str_includes msg ''File not found'' \<and> \<not> str_includes msg ''404''
          then (Inl (Error msg), w1) else (Inr (), w1)
      | (Inr u, w1) \<Rightarrow> (Inr (), w1))"

definition pushDelete :: "'r driveApi \<Rightarrow> string \<Rightarrow> (unit, 'r) io" where
  "pushDelete api noteId =
     andThen (db_read (\<lambda>d. getDriveMap d noteId)) (\<lambda>mapping.
     andThen
       (case truthy_str (map_option driveFileId mapping) of
          Some f \<Rightarrow> ret (Some f)
        | None \<Rightarrow>
            andThen (remote_call (FindCall noteId) (findNoteFileByNoteId api noteId))
              (\<lambda>found. ret (truthy_str found)))
       (\<lambda>fileId.
     andThen (case fileId of None \<Rightarrow> ret () | Some f \<Rightarrow> deleteFile_caught api f) (\<lambda>_.
     db_write (\<lambda>d. deleteDriveMap d noteId))))"

text \<open>The body of the loop of \<open>pushOutbox\<close>, for one operation, and the loop.\<close>

definition pushOp :: "'r driveApi \<Rightarrow> op \<Rightarrow> nat \<Rightarrow> (nat, 'r) io" where
  "pushOp api p pushed =
     (case optype p of
        Upsert \<Rightarrow>
          andThen (db_read (\<lambda>d. getNote d (op_noteId p))) (\<lambda>found.
          case found of
            None \<Rightarrow> andThen (db_write (\<lambda>d. deleteOp d (opId p))) (\<lambda>_. ret pushed)
          | Some nt \<Rightarrow>
              if truthy (nt ''deletedAtMs'') then
                andThen
                  (case note_key nt of None \<Rightarrow> throw DataError | Some noteId \<Rightarrow> pushDelete api noteId)
                  (\<lambda>_.
                andThen (db_write (\<lambda>d. deleteOp d (opId p))) (\<lambda>_. ret (pushed + 1)))
              else
                andThen (pushUpsert api nt) (\<lambda>_.
                andThen (db_write (\<lambda>d. deleteOp d (opId p))) (\<lambda>_. ret (pushed + 1))))
      | Delete \<Rightarrow>
          andThen (pushDelete api (op_noteId p)) (\<lambda>_.
          andThen (db_write (\<lambda>d. deleteOp d (opId p))) (\<lambda>_. ret (pushed + 1))))"

fun pushOps :: "'r driveApi \<Rightarrow> op list \<Rightarrow> nat \<Rightarrow> (nat, 'r) io" where
  "pushOps api [] pushed = ret pushed"
| "pushOps api (p # ps) pushed = andThen (pushOp api p pushed) (\<lambda>n. pushOps api ps n)"

definition pushOutbox :: "'r driveApi \<Rightarrow> (nat, 'r) io" where
  "pushOutbox api = andThen (db_read listOps) (\<lambda>ops. pushOps api ops 0)"

section \<open>The pull pipeline\<close>

definition cursorKey :: string where
  "cursorKey = ''drive.changeCursor''"

text \<open>
  The statements that \<open>ensureCursor\<close> and \<open>pullChanges\<close> both run on a file that is
  tagged as a note, with \<open>f.id\<close> or \<open>ch.fileId\<close> as the file id: download, parse
  (\<open>continue\<close> when \<open>JSON.parse\<close> throws), merge, write the note when the remote
  side wins, make sure that a mapping exists. The result says whether the note was
  written. Reading \<open>remoteNote.noteId\<close> throws on \<open>null\<close>; a key that is no string
  makes \<open>getNote\<close> throw.
\<close>

definition mergeRemoteFile :: "'r driveApi \<Rightarrow> string \<Rightarrow> (bool, 'r) io" where
  "mergeRemoteFile api fid =
     andThen (remote_call (DownloadCall fid) (downloadFile api fid)) (\<lambda>raw.
     case JSON_parse api raw of
       SyntaxError \<Rightarrow> ret False
     | JsonNull \<Rightarrow> throw TypeError
     | JsonOther \<Rightarrow> throw DataError
     | JsonObject remoteNote \<Rightarrow>
         (case note_key remoteNote of
            None \<Rightarrow> throw DataError
          | Some noteId \<Rightarrow>
              andThen (db_read (\<lambda>d. getNote d noteId)) (\<lambda>local.
              let res = mergeLastWriteWins local remoteNote in
              andThen
                (if winner res = Remote then db_try (\<lambda>d. putNote d (merged res)) else ret ())
                (\<lambda>_.
              andThen (db_read (\<lambda>d. getDriveMap d noteId)) (\<lambda>mapping.
              andThen
                (if truthy_str (map_option driveFileId mapping) = None
                 then db_write (\<lambda>d. putDriveMap d
                        \<lparr>map_noteId = noteId, driveFileId = fid, md5 = None\<rparr>)
                 else ret ())
                (\<lambda>_. ret (winner res = Remote)))))))"

text \<open>\<open>props.kind !== 'note' || !props.noteId\<close>, with \<open>props = x || {}\<close>.\<close>

definition not_note_props :: "(string \<Rightarrow> string option) option \<Rightarrow> bool" where
  "not_note_props x =
     (let props = (case x of None \<Rightarrow> Map.empty | Some p \<Rightarrow> p)
      in props ''kind'' \<noteq> Some ''note'' \<or> truthy_str (props ''noteId'') = None)"

text \<open>The body of the bootstrap loop of \<open>ensureCursor\<close>, the loop, and the function.\<close>

definition bootstrapFile :: "'r driveApi \<Rightarrow> drive_file \<Rightarrow> (unit, 'r) io" where
  "bootstrapFile api f =
     (if not_note_props (df_appProperties f) then ret ()
      else andThen (mergeRemoteFile api (df_id f)) (\<lambda>_. ret ()))"

fun bootstrapFiles :: "'r driveApi \<Rightarrow> drive_file list \<Rightarrow> (unit, 'r) io" where
  "bootstrapFiles api [] = ret ()"
| "bootstrapFiles api (f # fs) = andThen (bootstrapFile api f) (\<lambda>_. bootstrapFiles api fs)"

definition ensureCursor :: "'r driveApi \<Rightarrow> (jsval, 'r) io" where
  "ensureCursor api =
     andThen (db_read (\<lambda>d. getMeta d cursorKey)) (\<lambda>cursor.
     if truthy (Some cursor) then ret cursor
     else
       andThen (remote_call ListAllCall (listAllNoteFiles api)) (\<lambda>files.
       andThen (bootstrapFiles api files) (\<lambda>_.
       andThen (remote_call StartTokenCall (getStartPageToken api)) (\<lambda>token.
       andThen (db_write (\<lambda>d. setMeta d cursorKey (JStr token))) (\<lambda>_.
       ret (JStr token))))))"

text \<open>The body of the loop over the changes of one page of \<open>pullChanges\<close>, and the loop.\<close>

definition is_removal :: "change \<Rightarrow> bool" where
  "is_removal ch = (removed ch \<or> (case ch_file ch of None \<Rightarrow> False | Some f \<Rightarrow> trashed f))"

definition pullChange :: "'r driveApi \<Rightarrow> change \<Rightarrow> nat \<Rightarrow> (nat, 'r) io" where
  "pullChange api ch pulled =
     (case truthy_str (fileId ch) of
        None \<Rightarrow> ret pulled
      | Some fid \<Rightarrow>
          if is_removal ch then ret pulled
          else if not_note_props (case ch_file ch of None \<Rightarrow> None | Some f \<Rightarrow> appProperties f)
          then ret pulled
          else andThen (mergeRemoteFile api fid)
                 (\<lambda>written. ret (if written then pulled + 1 else pulled)))"

fun pullPage :: "'r driveApi \<Rightarrow> change list \<Rightarrow> nat \<Rightarrow> (nat, 'r) io" where
  "pullPage api [] pulled = ret pulled"
| "pullPage api (ch # chs) pulled = andThen (pullChange api ch pulled) (\<lambda>n. pullPage api chs n)"

text \<open>
  The \<open>while (true)\<close> loop of \<open>pullChanges\<close> asks for one page in each round and goes
  on as long as the remote side names a next page, which it may do for ever: the loop
  takes a bound on the number of pages, and \<open>None\<close> says that the bound was reached.
\<close>

fun pullPages ::
  "'r driveApi \<Rightarrow> nat \<Rightarrow> jsval \<Rightarrow> nat \<Rightarrow> 'r world \<Rightarrow> ((error + nat) \<times> 'r world) option" where
  "pullPages api 0 cursor pulled w = None"
| "pullPages api (Suc k) cursor pulled w =
     (case remote_call (ListChangesCall cursor) (listChanges api cursor) w of
        (Inl e, w1) \<Rightarrow> Some (Inl e, w1)
      | (Inr data, w1) \<Rightarrow>
          (case pullPage api (case changes data of None \<Rightarrow> [] | Some cs \<Rightarrow> cs) pulled w1 of
             (Inl e, w2) \<Rightarrow> Some (Inl e, w2)
           | (Inr n, w2) \<Rightarrow>
               (case truthy_str (nextPageToken data) of
                  Some t \<Rightarrow> pullPages api k (JStr t) n w2
                | None \<Rightarrow>
                    (case truthy_str (newStartPageToken data) of
                       Some t \<Rightarrow> Some (Inr n, w2\<lparr>db := setMeta (db w2) cursorKey (JStr t)\<rparr>)
                     | None \<Rightarrow> Some (Inr n, w2\<lparr>db := setMeta (db w2) cursorKey cursor\<rparr>)))))"

definition pullChanges ::
  "'r driveApi \<Rightarrow> nat \<Rightarrow> 'r world \<Rightarrow> ((error + nat) \<times> 'r world) option" where
  "pullChanges api bound w =
     (case ensureCursor api w of
        (Inl e, w1) \<Rightarrow> Some (Inl e, w1)
      | (Inr cursor, w1) \<Rightarrow> pullPages api bound cursor 0 w1)"

section \<open>Notions the properties are stated with\<close>

text \<open>The file id of the stored mapping of a note: \<open>mapping?.driveFileId || null\<close>.\<close>

definition mappedFileId :: "idb \<Rightarrow> string \<Rightarrow> string option" where
  "mappedFileId d noteId = truthy_str (map_option driveFileId (getDriveMap d noteId))"

text \<open>
  The outcomes of \<open>deleteFile\<close> after which \<open>pushDelete\<close> goes on: the file is deleted,
  or the error says that it was not found.
\<close>

definition delete_settled :: "error + unit \<Rightarrow> bool" where
  "delete_settled res =
     (case res of
        Inr _ \<Rightarrow> True
      | Inl (Error msg) \<Rightarrow> str_includes msg ''File not found'' \<or> str_includes msg ''404'')"

text \<open>The tags \<open>pushUpsert\<close> gives a note's file.\<close>

definition noteProps :: "string \<Rightarrow> string \<Rightarrow> string option" where
  "noteProps noteId = [''noteId'' \<mapsto> noteId, ''kind'' \<mapsto> ''note'']"

text \<open>An action keeps a part \<open>f\<close> of the local store when none of its runs changes it.\<close>

definition keeps :: "(idb \<Rightarrow> 'x) \<Rightarrow> ('a, 'r) io \<Rightarrow> bool" where
  "keeps f m = (\<forall>w. f (db (snd (m w))) = f (db w))"

section \<open>Example stores and an example remote side\<close>

definition note_a :: jsnote where
  "note_a = [''noteId'' \<mapsto> JStr ''a'', ''title'' \<mapsto> JStr ''A'', ''updatedAtMs'' \<mapsto> JNum 100]"

definition note_b :: jsnote where
  "note_b = [''noteId'' \<mapsto> JStr ''b'', ''updatedAtMs'' \<mapsto> JNum 200]"

definition note_b_old :: jsnote where
  "note_b_old = [''noteId'' \<mapsto> JStr ''b'', ''title'' \<mapsto> JStr ''B'', ''updatedAtMs'' \<mapsto> JNum 150]"

definition note_c :: jsnote where
  "note_c = [''noteId'' \<mapsto> JStr ''c'', ''updatedAtMs'' \<mapsto> JNum 300]"

definition raw_b :: string where
  "raw_b = ''{noteId: b, updatedAtMs: 200}''"

definition op1 :: op where
  "op1 = \<lparr>opId = ''o1'', optype = Upsert, op_noteId = ''a'', queuedAtMs = 1\<rparr>"

definition op2 :: op where
  "op2 = \<lparr>opId = ''o2'', optype = Upsert, op_noteId = ''c'', queuedAtMs = 2\<rparr>"

definition op3 :: op where
  "op3 = \<lparr>opId = ''o3'', optype = Delete, op_noteId = ''b'', queuedAtMs = 3\<rparr>"

definition op_g :: op where
  "op_g = \<lparr>opId = ''o7'', optype = Delete, op_noteId = ''g'', queuedAtMs = 0\<rparr>"

definition ch_removed :: change where
  "ch_removed = \<lparr>fileId = Some ''f1'', removed = True, ch_file = None\<rparr>"

definition ch_b :: change where
  "ch_b = \<lparr>fileId = Some ''f1'', removed = False,
     ch_file = Some \<lparr>appProperties = Some (noteProps ''b''), trashed = False\<rparr>\<rparr>"

definition ch_c :: change where
  "ch_c = \<lparr>fileId = Some ''f2'', removed = False,
     ch_file = Some \<lparr>appProperties = Some (noteProps ''c''), trashed = False\<rparr>\<rparr>"

text \<open>
  A remote side without state. It holds the file \<open>f1\<close> of note \<open>b\<close>; updating, deleting
  and downloading the file \<open>f2\<close> fails; deleting the file \<open>f4\<close> runs into a rate limit;
  deleting any other file but \<open>f1\<close> finds no file. The change feed has the pages \<open>c1\<close> (a removal and a change of \<open>f1\<close>) and
  \<open>c5\<close> (a change of \<open>f1\<close> and a change of \<open>f2\<close>); after any other token nothing
  has changed.
\<close>

definition drive_ex :: "unit driveApi" where
  "drive_ex =
     \<lparr>createJsonFileMultipart =
        (\<lambda>name ct json props r. (Inr \<lparr>up_id = ''new'', md5Checksum = Some ''m1''\<rparr>, r)),
      updateJsonFileMultipart =
        (\<lambda>f ct json props r.
           if f = ''f2'' then (Inl (Error ''Backend Error''), r)
           else (Inr \<lparr>up_id = f, md5Checksum = Some ''m2''\<rparr>, r)),
      deleteFile =
        (\<lambda>f r.
           if f = ''f1'' then (Inr (), r)
           else if f = ''f2'' then (Inl (Error ''Backend Error''), r)
           else if f = ''f4'' then (Inl (Error ''Rate limit exceeded for project 14047''), r)
           else (Inl (Error ''File not found: gone.''), r)),
      downloadFile =
        (\<lambda>f r.
           if f = ''f1'' then (Inr raw_b, r) else (Inl (Error ''Download failed (500).''), r)),
      getStartPageToken = (\<lambda>r. (Inr ''t0'', r)),
      listChanges =
        (\<lambda>tok r.
           if tok = JStr ''c1'' then
             (Inr \<lparr>changes = Some [ch_removed, ch_b], nextPageToken = None,
                   newStartPageToken = Some ''c2''\<rparr>, r)
           else if tok = JStr ''c5'' then
             (Inr \<lparr>changes = Some [ch_b, ch_c], nextPageToken = None,
                   newStartPageToken = Some ''c6''\<rparr>, r)
           else
             (Inr \<lparr>changes = None, nextPageToken = None, newStartPageToken = Some ''t1''\<rparr>, r)),
      findNoteFileByNoteId =
        (\<lambda>noteId r. if noteId = ''c'' then (Inr (Some ''f3''), r) else (Inr None, r)),
      listAllNoteFiles =
        (\<lambda>r. (Inr [\<lparr>df_id = ''f1'', df_appProperties = Some (noteProps ''b'')\<rparr>], r)),
      JSON_parse = (\<lambda>raw. if raw = raw_b then JsonObject note_b else SyntaxError)\<rparr>"

definition store_fresh :: idb where
  "store_fresh =
     \<lparr>noteStore = Map.empty, outbox = [], driveMap = Map.empty, syncMeta = Map.empty\<rparr>"

definition store_push :: idb where
  "store_push =
     \<lparr>noteStore = [''a'' \<mapsto> note_a, ''c'' \<mapsto> note_c],
      outbox = [op1, op2, op3],
      driveMap =
        [''a'' \<mapsto> \<lparr>map_noteId = ''a'', driveFileId = ''f1'', md5 = None\<rparr>,
         ''c'' \<mapsto> \<lparr>map_noteId = ''c'', driveFileId = ''f2'', md5 = None\<rparr>,
         ''e'' \<mapsto> \<lparr>map_noteId = ''e'', driveFileId = ''f9'', md5 = None\<rparr>],
      syncMeta = Map.empty\<rparr>"

definition store_rate :: idb where
  "store_rate =
     \<lparr>noteStore = [''a'' \<mapsto> note_a],
      outbox = [op1, op_g],
      driveMap =
        [''a'' \<mapsto> \<lparr>map_noteId = ''a'', driveFileId = ''f1'', md5 = None\<rparr>,
         ''g'' \<mapsto> \<lparr>map_noteId = ''g'', driveFileId = ''f4'', md5 = None\<rparr>],
      syncMeta = Map.empty\<rparr>"

definition store_c1 :: idb where
  "store_c1 =
     \<lparr>noteStore = [''b'' \<mapsto> note_b_old], outbox = [],
      driveMap = [''b'' \<mapsto> \<lparr>map_noteId = ''b'', driveFileId = ''old'', md5 = None\<rparr>],
      syncMeta = [cursorKey \<mapsto> JStr ''c1'']\<rparr>"

definition store_c5 :: idb where
  "store_c5 =
     \<lparr>noteStore = Map.empty, outbox = [], driveMap = Map.empty,
      syncMeta = [cursorKey \<mapsto> JStr ''c5'']\<rparr>"

definition world_of :: "idb \<Rightarrow> unit world" where
  "world_of d = \<lparr>db = d, drive = (), calls = []\<rparr>"

section \<open>Properties of the conflict resolver\<close>

lemma or_zero_num [simp]: "Number (or_zero (Some (JNum a))) = Some a"
  by (simp add: or_zero_def)

lemma or_zero_falsy: "\<not> truthy x \<Longrightarrow> or_zero x = JNum 0"
  by (cases x) (simp_all add: or_zero_def)

text \<open>
  C1. With no local note the remote note wins and is the merged note. With a local
  note, and integer time stamps \<open>a\<close> (local) and \<open>b\<close> (remote) as the data model has
  them: if \<open>a < b\<close> the remote note wins and the merged note holds every field of the
  remote note and, for the fields the remote note lacks, the local value; otherwise
  (a tie included) the local note wins and is the merged note, unchanged. Whatever the
  time stamps are, the result is one of these two.
\<close>

theorem mergeLastWriteWins_cases:
  "mergeLastWriteWins None rem = \<lparr>winner = Remote, merged = rem\<rparr> \<and>
   (loc ''updatedAtMs'' = Some (JNum a) \<and> rem ''updatedAtMs'' = Some (JNum b) \<longrightarrow>
      (a < b \<longrightarrow>
         winner (mergeLastWriteWins (Some loc) rem) = Remote \<and>
         (\<forall>k. merged (mergeLastWriteWins (Some loc) rem) k =
                (case rem k of None \<Rightarrow> loc k | Some v \<Rightarrow> Some v))) \<and>
      (\<not> a < b \<longrightarrow>
         mergeLastWriteWins (Some loc) rem = \<lparr>winner = Local, merged = loc\<rparr>)) \<and>
   (mergeLastWriteWins (Some loc) rem = \<lparr>winner = Remote, merged = loc ++ rem\<rparr> \<or>
    mergeLastWriteWins (Some loc) rem = \<lparr>winner = Local, merged = loc\<rparr>)"
  by (simp add: mergeLastWriteWins_def map_add_def)

theorem mergeLastWriteWins_cases_witness:
  "winner (mergeLastWriteWins
      (Some [''noteId'' \<mapsto> JStr ''c'', ''title'' \<mapsto> JStr ''t'', ''updatedAtMs'' \<mapsto> JNum 250])
      [''noteId'' \<mapsto> JStr ''c'', ''updatedAtMs'' \<mapsto> JNum 300]) = Remote \<and>
   merged (mergeLastWriteWins
      (Some [''noteId'' \<mapsto> JStr ''c'', ''title'' \<mapsto> JStr ''t'', ''updatedAtMs'' \<mapsto> JNum 250])
      [''noteId'' \<mapsto> JStr ''c'', ''updatedAtMs'' \<mapsto> JNum 300]) ''title'' = Some (JStr ''t'') \<and>
   mergeLastWriteWins (Some [''noteId'' \<mapsto> JStr ''c'', ''updatedAtMs'' \<mapsto> JNum 300])
      [''noteId'' \<mapsto> JStr ''c'', ''updatedAtMs'' \<mapsto> JNum 300]
     = \<lparr>winner = Local, merged = [''noteId'' \<mapsto> JStr ''c'', ''updatedAtMs'' \<mapsto> JNum 300]\<rparr>"
  using
    mergeLastWriteWins_cases [of "[''noteId'' \<mapsto> JStr ''c'', ''updatedAtMs'' \<mapsto> JNum 300]"
      "[''noteId'' \<mapsto> JStr ''c'', ''title'' \<mapsto> JStr ''t'', ''updatedAtMs'' \<mapsto> JNum 250]" 250 300]
    mergeLastWriteWins_cases [of "[''noteId'' \<mapsto> JStr ''c'', ''updatedAtMs'' \<mapsto> JNum 300]"
      "[''noteId'' \<mapsto> JStr ''c'', ''updatedAtMs'' \<mapsto> JNum 300]" 300 300]
  by simp

text \<open>
  C2. For a local note and a remote note with integer time stamps \<open>a\<close> and \<open>b\<close>, the
  merged note's \<open>updatedAtMs\<close> is \<open>max a b\<close>; on a tie the local note is kept.
\<close>

theorem merged_updatedAtMs_max:
  "loc ''updatedAtMs'' = Some (JNum a) \<Longrightarrow> rem ''updatedAtMs'' = Some (JNum b) \<Longrightarrow>
   merged (mergeLastWriteWins (Some loc) rem) ''updatedAtMs'' = Some (JNum (max a b)) \<and>
   (a = b \<longrightarrow> mergeLastWriteWins (Some loc) rem = \<lparr>winner = Local, merged = loc\<rparr>)"
  by (simp add: mergeLastWriteWins_def map_add_def max_def)

theorem merged_updatedAtMs_max_witness:
  "merged (mergeLastWriteWins (Some [''noteId'' \<mapsto> JStr ''c'', ''updatedAtMs'' \<mapsto> JNum 100])
      [''noteId'' \<mapsto> JStr ''c'', ''updatedAtMs'' \<mapsto> JNum 200]) ''updatedAtMs'' = Some (JNum 200) \<and>
   mergeLastWriteWins (Some [''noteId'' \<mapsto> JStr ''c'', ''updatedAtMs'' \<mapsto> JNum 100])
      [''noteId'' \<mapsto> JStr ''c'', ''updatedAtMs'' \<mapsto> JNum 100]
     = \<lparr>winner = Local, merged = [''noteId'' \<mapsto> JStr ''c'', ''updatedAtMs'' \<mapsto> JNum 100]\<rparr>"
  using
    merged_updatedAtMs_max [of "[''noteId'' \<mapsto> JStr ''c'', ''updatedAtMs'' \<mapsto> JNum 100]" 100
      "[''noteId'' \<mapsto> JStr ''c'', ''updatedAtMs'' \<mapsto> JNum 200]" 200]
    merged_updatedAtMs_max [of "[''noteId'' \<mapsto> JStr ''c'', ''updatedAtMs'' \<mapsto> JNum 100]" 100
      "[''noteId'' \<mapsto> JStr ''c'', ''updatedAtMs'' \<mapsto> JNum 100]" 100]
  by simp

text \<open>
  C10, as the claim states it, fails: a remote note with no \<open>updatedAtMs\<close> wins
  against a local note whose time stamp is negative, since the missing stamp counts as 0.
\<close>

theorem missing_remote_stamp_counterexample:
  "winner (mergeLastWriteWins (Some [''noteId'' \<mapsto> JStr ''a'', ''updatedAtMs'' \<mapsto> JNum (- 1)])
      [''noteId'' \<mapsto> JStr ''a'']) = Remote"
  by (simp add: mergeLastWriteWins_def or_zero_def)

text \<open>
  C10, amended. With a local note, a missing or falsy \<open>updatedAtMs\<close> on either side
  decides as the time stamp 0 does. A remote note with no \<open>updatedAtMs\<close> does not win
  against a local note whose \<open>updatedAtMs\<close> is missing, falsy or an integer that is
  not negative; a local note with no \<open>updatedAtMs\<close> loses to every remote note whose
  \<open>updatedAtMs\<close> is an integer above 0.
\<close>

theorem falsy_stamp_is_zero:
  "(\<not> truthy (loc ''updatedAtMs'') \<longrightarrow>
      winner (mergeLastWriteWins (Some loc) rem) =
      winner (mergeLastWriteWins (Some (loc(''updatedAtMs'' \<mapsto> JNum 0))) rem)) \<and>
   (\<not> truthy (rem ''updatedAtMs'') \<longrightarrow>
      winner (mergeLastWriteWins (Some loc) rem) =
      winner (mergeLastWriteWins (Some loc) (rem(''updatedAtMs'' \<mapsto> JNum 0)))) \<and>
   (rem ''updatedAtMs'' = None \<and>
      (\<not> truthy (loc ''updatedAtMs'') \<or> (\<exists>a\<ge>0. loc ''updatedAtMs'' = Some (JNum a))) \<longrightarrow>
      mergeLastWriteWins (Some loc) rem = \<lparr>winner = Local, merged = loc\<rparr>) \<and>
   (loc ''updatedAtMs'' = None \<and> rem ''updatedAtMs'' = Some (JNum b) \<and> 0 < b \<longrightarrow>
      winner (mergeLastWriteWins (Some loc) rem) = Remote)"
  by (auto simp add: mergeLastWriteWins_def or_zero_falsy)

theorem falsy_stamp_is_zero_witness:
  "mergeLastWriteWins (Some [''noteId'' \<mapsto> JStr ''a'', ''updatedAtMs'' \<mapsto> JNum 7])
      [''noteId'' \<mapsto> JStr ''a'']
     = \<lparr>winner = Local, merged = [''noteId'' \<mapsto> JStr ''a'', ''updatedAtMs'' \<mapsto> JNum 7]\<rparr> \<and>
   winner (mergeLastWriteWins (Some [''noteId'' \<mapsto> JStr ''a''])
      [''noteId'' \<mapsto> JStr ''a'', ''updatedAtMs'' \<mapsto> JNum 5]) = Remote"
proof -
  have "mergeLastWriteWins (Some [''noteId'' \<mapsto> JStr ''a'', ''updatedAtMs'' \<mapsto> JNum 7])
      [''noteId'' \<mapsto> JStr ''a'']
     = \<lparr>winner = Local, merged = [''noteId'' \<mapsto> JStr ''a'', ''updatedAtMs'' \<mapsto> JNum 7]\<rparr>"
    using falsy_stamp_is_zero [where loc = "[''noteId'' \<mapsto> JStr ''a'', ''updatedAtMs'' \<mapsto> JNum 7]"
      and rem = "[''noteId'' \<mapsto> JStr ''a'']" and b = 5,
      THEN conjunct2, THEN conjunct2, THEN conjunct1]
    by simp
  moreover have "winner (mergeLastWriteWins (Some [''noteId'' \<mapsto> JStr ''a''])
      [''noteId'' \<mapsto> JStr ''a'', ''updatedAtMs'' \<mapsto> JNum 5]) = Remote"
    using falsy_stamp_is_zero [where loc = "[''noteId'' \<mapsto> JStr ''a'']"
      and rem = "[''noteId'' \<mapsto> JStr ''a'', ''updatedAtMs'' \<mapsto> JNum 5]" and b = 5,
      THEN conjunct2, THEN conjunct2, THEN conjunct2]
    by simp
  ultimately show ?thesis by (rule conjI)
qed

section \<open>Properties of sequencing\<close>

lemmas io_defs =
  Let_def ret_def throw_def andThen_def db_read_def db_write_def db_try_def remote_call_def

lemmas ex_defs =
  drive_ex_def world_of_def store_fresh_def store_push_def store_rate_def store_c1_def
  store_c5_def note_a_def note_b_def note_b_old_def note_c_def raw_b_def
  op1_def op2_def op3_def op_g_def
  ch_removed_def ch_b_def ch_c_def noteProps_def cursorKey_def

lemma keepsD: "keeps f m \<Longrightarrow> m w = (res, w') \<Longrightarrow> f (db w') = f (db w)"
  by (auto simp add: keeps_def dest: spec [of _ w])

lemma keeps_ret: "keeps f (ret x)"
  by (simp add: keeps_def ret_def)

lemma keeps_throw: "keeps f (throw e)"
  by (simp add: keeps_def throw_def)

lemma keeps_db_read: "keeps f (db_read g)"
  by (simp add: keeps_def db_read_def)

lemma keeps_remote_call: "keeps f (remote_call c g)"
  by (simp add: keeps_def remote_call_def split: prod.splits)

lemma keeps_db_write: "(\<And>d. f (g d) = f d) \<Longrightarrow> keeps f (db_write g)"
  by (simp add: keeps_def db_write_def)

lemma keeps_db_try: "(\<And>d d'. g d = Inr d' \<Longrightarrow> f d' = f d) \<Longrightarrow> keeps f (db_try g)"
  by (simp add: keeps_def db_try_def split: sum.splits)

lemma keeps_andThen: "keeps f m \<Longrightarrow> (\<And>x. keeps f (g x)) \<Longrightarrow> keeps f (andThen m g)"
  by (auto simp add: keeps_def andThen_def split: prod.splits sum.splits)
    (metis snd_conv)+

lemmas keeps_intros = keeps_ret keeps_throw keeps_db_read keeps_remote_call keeps_andThen

lemma keeps_deleteFile_caught: "keeps f (deleteFile_caught api x)"
  by (simp add: keeps_def deleteFile_caught_def remote_call_def split: prod.splits sum.splits error.splits)

lemma keeps_pushDelete: "(\<And>d. f (deleteDriveMap d noteId) = f d) \<Longrightarrow> keeps f (pushDelete api noteId)"
  unfolding pushDelete_def
  by (auto intro!: keeps_intros keeps_deleteFile_caught keeps_db_write split: option.splits)

lemma keeps_pushUpsert: "(\<And>d m. f (putDriveMap d m) = f d) \<Longrightarrow> keeps f (pushUpsert api nt)"
  unfolding pushUpsert_def Let_def
  by (auto intro!: keeps_intros keeps_db_write split: option.splits)

lemma outbox_deleteDriveMap: "outbox (deleteDriveMap d n) = outbox d"
  by (simp add: deleteDriveMap_def)

lemma outbox_putDriveMap: "outbox (putDriveMap d m) = outbox d"
  by (simp add: putDriveMap_def)

section \<open>Properties of the push pipeline\<close>

lemma pushUpsert_mapped:
  "note_key nt = Some noteId \<Longrightarrow> mappedFileId (db w) noteId = Some f \<Longrightarrow>
   updateJsonFileMultipart api f contentType nt (noteProps noteId) (drive w) = (ures, r) \<Longrightarrow>
   pushUpsert api nt w =
     (case ures of
        Inl e \<Rightarrow> (Inl e, w\<lparr>drive := r, calls := calls w @ [UpdateCall f nt]\<rparr>)
      | Inr u \<Rightarrow> (Inr (), w\<lparr>drive := r, calls := calls w @ [UpdateCall f nt],
            db := putDriveMap (db w)
              \<lparr>map_noteId = noteId, driveFileId = up_id u, md5 = md5Checksum u\<rparr>\<rparr>))"
  by (simp add: pushUpsert_def mappedFileId_def noteProps_def io_defs split: sum.splits)

lemma pushUpsert_find_fails:
  "note_key nt = Some noteId \<Longrightarrow> mappedFileId (db w) noteId = None \<Longrightarrow>
   findNoteFileByNoteId api noteId (drive w) = (Inl e, r) \<Longrightarrow>
   pushUpsert api nt w = (Inl e, w\<lparr>drive := r, calls := calls w @ [FindCall noteId]\<rparr>)"
  by (simp add: pushUpsert_def mappedFileId_def noteProps_def io_defs)

lemma pushUpsert_found:
  "note_key nt = Some noteId \<Longrightarrow> mappedFileId (db w) noteId = None \<Longrightarrow>
   findNoteFileByNoteId api noteId (drive w) = (Inr found, r) \<Longrightarrow> truthy_str found = Some f \<Longrightarrow>
   updateJsonFileMultipart api f contentType nt (noteProps noteId) r = (ures, r2) \<Longrightarrow>
   pushUpsert api nt w =
     (case ures of
        Inl e \<Rightarrow> (Inl e, w\<lparr>drive := r2, calls := calls w @ [FindCall noteId, UpdateCall f nt]\<rparr>)
      | Inr u \<Rightarrow> (Inr (), w\<lparr>drive := r2, calls := calls w @ [FindCall noteId, UpdateCall f nt],
            db := putDriveMap (db w)
              \<lparr>map_noteId = noteId, driveFileId = up_id u, md5 = md5Checksum u\<rparr>\<rparr>))"
  by (simp add: pushUpsert_def mappedFileId_def noteProps_def io_defs split: sum.splits)

lemma pushUpsert_not_found:
  "note_key nt = Some noteId \<Longrightarrow> mappedFileId (db w) noteId = None \<Longrightarrow>
   findNoteFileByNoteId api noteId (drive w) = (Inr found, r) \<Longrightarrow> truthy_str found = None \<Longrightarrow>
   createJsonFileMultipart api (noteFileName noteId) contentType nt (noteProps noteId) r = (cres, r2) \<Longrightarrow>
   pushUpsert api nt w =
     (case cres of
        Inl e \<Rightarrow> (Inl e, w\<lparr>drive := r2,
            calls := calls w @ [FindCall noteId, CreateCall (noteFileName noteId) nt]\<rparr>)
      | Inr u \<Rightarrow> (Inr (), w\<lparr>drive := r2,
            calls := calls w @ [FindCall noteId, CreateCall (noteFileName noteId) nt],
            db := putDriveMap (db w)
              \<lparr>map_noteId = noteId, driveFileId = up_id u, md5 = md5Checksum u\<rparr>\<rparr>))"
  by (simp add: pushUpsert_def mappedFileId_def noteProps_def io_defs split: sum.splits)

lemma pushUpsert_create_only:
  assumes k: "note_key nt = Some noteId"
    and c: "CreateCall n j \<in> set (drop (length (calls w)) (calls (snd (pushUpsert api nt w))))"
  shows "mappedFileId (db w) noteId = None \<and>
     (\<exists>found r. findNoteFileByNoteId api noteId (drive w) = (Inr found, r) \<and> truthy_str found = None)"
proof (cases "mappedFileId (db w) noteId")
  case (Some f)
  obtain ures r where "updateJsonFileMultipart api f contentType nt (noteProps noteId) (drive w) = (ures, r)"
    by (cases "updateJsonFileMultipart api f contentType nt (noteProps noteId) (drive w)")
  from pushUpsert_mapped [OF k Some this] c show ?thesis
    by (cases ures) simp_all
next
  case None
  obtain fres r where f: "findNoteFileByNoteId api noteId (drive w) = (fres, r)"
    by (cases "findNoteFileByNoteId api noteId (drive w)")
  show ?thesis
  proof (cases fres)
    case (Inl e)
    with pushUpsert_find_fails [OF k None] f c show ?thesis by simp
  next
    case (Inr found)
    show ?thesis
    proof (cases "truthy_str found")
      case N: None
      with None f Inr show ?thesis by simp
    next
      case S: (Some g)
      obtain ures r2 where "updateJsonFileMultipart api g contentType nt (noteProps noteId) r = (ures, r2)"
        by (cases "updateJsonFileMultipart api g contentType nt (noteProps noteId) r")
      from pushUpsert_found [OF k None f [unfolded Inr] S this] c show ?thesis
        by (cases ures) simp_all
    qed
  qed
qed


lemma pushOp_upsert:
  "optype p = Upsert \<Longrightarrow> getNote (db w) (op_noteId p) = Some nt \<Longrightarrow>
   \<not> truthy (nt ''deletedAtMs'') \<Longrightarrow>
   pushOp api p n w =
     (case pushUpsert api nt w of
        (Inl e, w1) \<Rightarrow> (Inl e, w1)
      | (Inr u, w1) \<Rightarrow> (Inr (n + 1), w1\<lparr>db := deleteOp (db w1) (opId p)\<rparr>))"
  by (simp add: pushOp_def andThen_def db_read_def db_write_def ret_def
      split: prod.splits sum.splits)

text \<open>
  C5. An upsert operation for a note that exists and is no tombstone runs \<open>pushUpsert\<close>
  on the note and is removed when that has succeeded. \<open>pushUpsert\<close>, for a note with the
  id \<open>noteId\<close>: with a file id \<open>f\<close> in the stored mapping it issues one update of
  \<open>f\<close>; with none (no mapping, or a mapping whose file id is empty) it issues the query
  by the note id and then an update of the file the query finds, or a create when the
  query finds none. When the update or create succeeds, reading the mapping of \<open>noteId\<close>
  from the store gives the file id and the checksum the call returned; when a remote call
  fails, the error is the result and the store is as before. A create is issued only with
  no file id in the mapping and none found by the query.
\<close>

theorem pushUpsert_cases:
  assumes k: "note_key nt = Some noteId"
  shows
   "(optype p = Upsert \<and> getNote (db v) (op_noteId p) = Some nt \<and> \<not> truthy (nt ''deletedAtMs'') \<longrightarrow>
      pushOp api p n v =
        (case pushUpsert api nt v of
           (Inl e, w1) \<Rightarrow> (Inl e, w1)
         | (Inr u, w1) \<Rightarrow> (Inr (n + 1), w1\<lparr>db := deleteOp (db w1) (opId p)\<rparr>))) \<and>
    (mappedFileId (db w) noteId = Some f \<and>
      updateJsonFileMultipart api f contentType nt (noteProps noteId) (drive w) = (Inl e, r) \<longrightarrow>
      pushUpsert api nt w = (Inl e, w\<lparr>drive := r, calls := calls w @ [UpdateCall f nt]\<rparr>)) \<and>
    (mappedFileId (db w) noteId = Some f \<and>
      updateJsonFileMultipart api f contentType nt (noteProps noteId) (drive w) = (Inr u, r) \<longrightarrow>
      fst (pushUpsert api nt w) = Inr () \<and>
      drive (snd (pushUpsert api nt w)) = r \<and>
      calls (snd (pushUpsert api nt w)) = calls w @ [UpdateCall f nt] \<and>
      getDriveMap (db (snd (pushUpsert api nt w))) noteId =
        Some \<lparr>map_noteId = noteId, driveFileId = up_id u, md5 = md5Checksum u\<rparr>) \<and>
    (mappedFileId (db w) noteId = None \<and>
      findNoteFileByNoteId api noteId (drive w) = (Inl e, r) \<longrightarrow>
      pushUpsert api nt w = (Inl e, w\<lparr>drive := r, calls := calls w @ [FindCall noteId]\<rparr>)) \<and>
    (mappedFileId (db w) noteId = None \<and>
      findNoteFileByNoteId api noteId (drive w) = (Inr found, r) \<and> truthy_str found = Some f \<and>
      updateJsonFileMultipart api f contentType nt (noteProps noteId) r = (Inl e, r') \<longrightarrow>
      pushUpsert api nt w =
        (Inl e, w\<lparr>drive := r', calls := calls w @ [FindCall noteId, UpdateCall f nt]\<rparr>)) \<and>
    (mappedFileId (db w) noteId = None \<and>
      findNoteFileByNoteId api noteId (drive w) = (Inr found, r) \<and> truthy_str found = Some f \<and>
      updateJsonFileMultipart api f contentType nt (noteProps noteId) r = (Inr u, r') \<longrightarrow>
      fst (pushUpsert api nt w) = Inr () \<and>
      drive (snd (pushUpsert api nt w)) = r' \<and>
      calls (snd (pushUpsert api nt w)) = calls w @ [FindCall noteId, UpdateCall f nt] \<and>
      getDriveMap (db (snd (pushUpsert api nt w))) noteId =
        Some \<lparr>map_noteId = noteId, driveFileId = up_id u, md5 = md5Checksum u\<rparr>) \<and>
    (mappedFileId (db w) noteId = None \<and>
      findNoteFileByNoteId api noteId (drive w) = (Inr found, r) \<and> truthy_str found = None \<and>
      createJsonFileMultipart api (noteFileName noteId) contentType nt (noteProps noteId) r = (Inl e, r') \<longrightarrow>
      pushUpsert api nt w =
        (Inl e, w\<lparr>drive := r',
           calls := calls w @ [FindCall noteId, CreateCall (noteFileName noteId) nt]\<rparr>)) \<and>
    (mappedFileId (db w) noteId = None \<and>
      findNoteFileByNoteId api noteId (drive w) = (Inr found, r) \<and> truthy_str found = None \<and>
      createJsonFileMultipart api (noteFileName noteId) contentType nt (noteProps noteId) r = (Inr u, r') \<longrightarrow>
      fst (pushUpsert api nt w) = Inr () \<and>
      drive (snd (pushUpsert api nt w)) = r' \<and>
      calls (snd (pushUpsert api nt w)) =
        calls w @ [FindCall noteId, CreateCall (noteFileName noteId) nt] \<and>
      getDriveMap (db (snd (pushUpsert api nt w))) noteId =
        Some \<lparr>map_noteId = noteId, driveFileId = up_id u, md5 = md5Checksum u\<rparr>) \<and>
    ((\<exists>name j. CreateCall name j \<in> set (drop (length (calls w)) (calls (snd (pushUpsert api nt w))))) \<longrightarrow>
      mappedFileId (db w) noteId = None \<and>
      (\<exists>found r. findNoteFileByNoteId api noteId (drive w) = (Inr found, r) \<and> truthy_str found = None))"
proof -
  have stored: "getDriveMap (putDriveMap d \<lparr>map_noteId = noteId, driveFileId = i, md5 = c\<rparr>) noteId =
      Some \<lparr>map_noteId = noteId, driveFileId = i, md5 = c\<rparr>" for d i c
    by (simp add: getDriveMap_def putDriveMap_def)
  have c0: "optype p = Upsert \<and> getNote (db v) (op_noteId p) = Some nt \<and> \<not> truthy (nt ''deletedAtMs'') \<longrightarrow>
      pushOp api p n v =
        (case pushUpsert api nt v of
           (Inl e, w1) \<Rightarrow> (Inl e, w1)
         | (Inr u, w1) \<Rightarrow> (Inr (n + 1), w1\<lparr>db := deleteOp (db w1) (opId p)\<rparr>))"
    using pushOp_upsert [of p v nt api n] by simp
  have c1: "mappedFileId (db w) noteId = Some f \<and>
      updateJsonFileMultipart api f contentType nt (noteProps noteId) (drive w) = (Inl e, r) \<longrightarrow>
      pushUpsert api nt w = (Inl e, w\<lparr>drive := r, calls := calls w @ [UpdateCall f nt]\<rparr>)"
    using pushUpsert_mapped [OF k, of w f api "Inl e" r] by simp
  have c2: "mappedFileId (db w) noteId = Some f \<and>
      updateJsonFileMultipart api f contentType nt (noteProps noteId) (drive w) = (Inr u, r) \<longrightarrow>
      fst (pushUpsert api nt w) = Inr () \<and>
      drive (snd (pushUpsert api nt w)) = r \<and>
      calls (snd (pushUpsert api nt w)) = calls w @ [UpdateCall f nt] \<and>
      getDriveMap (db (snd (pushUpsert api nt w))) noteId =
        Some \<lparr>map_noteId = noteId, driveFileId = up_id u, md5 = md5Checksum u\<rparr>"
    using pushUpsert_mapped [OF k, of w f api "Inr u" r] by (simp add: stored)
  have c3: "mappedFileId (db w) noteId = None \<and>
      findNoteFileByNoteId api noteId (drive w) = (Inl e, r) \<longrightarrow>
      pushUpsert api nt w = (Inl e, w\<lparr>drive := r, calls := calls w @ [FindCall noteId]\<rparr>)"
    using pushUpsert_find_fails [OF k, of w api e r] by simp
  have c4: "mappedFileId (db w) noteId = None \<and>
      findNoteFileByNoteId api noteId (drive w) = (Inr found, r) \<and> truthy_str found = Some f \<and>
      updateJsonFileMultipart api f contentType nt (noteProps noteId) r = (Inl e, r') \<longrightarrow>
      pushUpsert api nt w =
        (Inl e, w\<lparr>drive := r', calls := calls w @ [FindCall noteId, UpdateCall f nt]\<rparr>)"
    using pushUpsert_found [OF k, of w api found r f "Inl e" r'] by simp
  have c5: "mappedFileId (db w) noteId = None \<and>
      findNoteFileByNoteId api noteId (drive w) = (Inr found, r) \<and> truthy_str found = Some f \<and>
      updateJsonFileMultipart api f contentType nt (noteProps noteId) r = (Inr u, r') \<longrightarrow>
      fst (pushUpsert api nt w) = Inr () \<and>
      drive (snd (pushUpsert api nt w)) = r' \<and>
      calls (snd (pushUpsert api nt w)) = calls w @ [FindCall noteId, UpdateCall f nt] \<and>
      getDriveMap (db (snd (pushUpsert api nt w))) noteId =
        Some \<lparr>map_noteId = noteId, driveFileId = up_id u, md5 = md5Checksum u\<rparr>"
    using pushUpsert_found [OF k, of w api found r f "Inr u" r'] by (simp add: stored)
  have c6: "mappedFileId (db w) noteId = None \<and>
      findNoteFileByNoteId api noteId (drive w) = (Inr found, r) \<and> truthy_str found = None \<and>
      createJsonFileMultipart api (noteFileName noteId) contentType nt (noteProps noteId) r = (Inl e, r') \<longrightarrow>
      pushUpsert api nt w =
        (Inl e, w\<lparr>drive := r',
           calls := calls w @ [FindCall noteId, CreateCall (noteFileName noteId) nt]\<rparr>)"
    using pushUpsert_not_found [OF k, of w api found r "Inl e" r'] by simp
  have c7: "mappedFileId (db w) noteId = None \<and>
      findNoteFileByNoteId api noteId (drive w) = (Inr found, r) \<and> truthy_str found = None \<and>
      createJsonFileMultipart api (noteFileName noteId) contentType nt (noteProps noteId) r = (Inr u, r') \<longrightarrow>
      fst (pushUpsert api nt w) = Inr () \<and>
      drive (snd (pushUpsert api nt w)) = r' \<and>
      calls (snd (pushUpsert api nt w)) =
        calls w @ [FindCall noteId, CreateCall (noteFileName noteId) nt] \<and>
      getDriveMap (db (snd (pushUpsert api nt w))) noteId =
        Some \<lparr>map_noteId = noteId, driveFileId = up_id u, md5 = md5Checksum u\<rparr>"
    using pushUpsert_not_found [OF k, of w api found r "Inr u" r'] by (simp add: stored)
  have c8: "(\<exists>name j. CreateCall name j \<in> set (drop (length (calls w)) (calls (snd (pushUpsert api nt w))))) \<longrightarrow>
      mappedFileId (db w) noteId = None \<and>
      (\<exists>found r. findNoteFileByNoteId api noteId (drive w) = (Inr found, r) \<and> truthy_str found = None)"
    using pushUpsert_create_only [OF k, of _ _ w api] by blast
  show ?thesis
    by (intro conjI c0 c1 c2 c3 c4 c5 c6 c7 c8)
qed

theorem pushUpsert_cases_witness:
  "fst (pushUpsert drive_ex note_b (world_of store_fresh)) = Inr () \<and>
   calls (snd (pushUpsert drive_ex note_b (world_of store_fresh))) =
     [FindCall ''b'', CreateCall ''note-b.json'' note_b] \<and>
   getDriveMap (db (snd (pushUpsert drive_ex note_b (world_of store_fresh)))) ''b'' =
     Some \<lparr>map_noteId = ''b'', driveFileId = ''new'', md5 = Some ''m1''\<rparr> \<and>
   fst (pushUpsert drive_ex note_a (world_of store_push)) = Inr () \<and>
   calls (snd (pushUpsert drive_ex note_a (world_of store_push))) = [UpdateCall ''f1'' note_a] \<and>
   getDriveMap (db (snd (pushUpsert drive_ex note_a (world_of store_push)))) ''a'' =
     Some \<lparr>map_noteId = ''a'', driveFileId = ''f1'', md5 = Some ''m2''\<rparr> \<and>
   pushUpsert drive_ex note_c (world_of store_push) =
     (Inl (Error ''Backend Error''),
      \<lparr>db = store_push, drive = (), calls = [UpdateCall ''f2'' note_c]\<rparr>)"
proof -
  have kb: "note_key note_b = Some ''b''"
    by (simp add: note_key_def note_b_def)
  have ka: "note_key note_a = Some ''a''"
    by (simp add: note_key_def note_a_def)
  have kc: "note_key note_c = Some ''c''"
    by (simp add: note_key_def note_c_def)
  have b: "fst (pushUpsert drive_ex note_b (world_of store_fresh)) = Inr () \<and>
     calls (snd (pushUpsert drive_ex note_b (world_of store_fresh))) =
       [FindCall ''b'', CreateCall ''note-b.json'' note_b] \<and>
     getDriveMap (db (snd (pushUpsert drive_ex note_b (world_of store_fresh)))) ''b'' =
       Some \<lparr>map_noteId = ''b'', driveFileId = ''new'', md5 = Some ''m1''\<rparr>"
    using pushUpsert_cases [OF kb, where w = "world_of store_fresh" and api = drive_ex
        and found = None and r = "()" and r' = "()"
        and u = "\<lparr>up_id = ''new'', md5Checksum = Some ''m1''\<rparr>",
        THEN conjunct2, THEN conjunct2, THEN conjunct2, THEN conjunct2, THEN conjunct2,
        THEN conjunct2, THEN conjunct2, THEN conjunct1]
    by (simp add: mappedFileId_def truthy_str_def getDriveMap_def noteFileName_def
        drive_ex_def world_of_def store_fresh_def)
  have a: "fst (pushUpsert drive_ex note_a (world_of store_push)) = Inr () \<and>
     calls (snd (pushUpsert drive_ex note_a (world_of store_push))) = [UpdateCall ''f1'' note_a] \<and>
     getDriveMap (db (snd (pushUpsert drive_ex note_a (world_of store_push)))) ''a'' =
       Some \<lparr>map_noteId = ''a'', driveFileId = ''f1'', md5 = Some ''m2''\<rparr>"
    using pushUpsert_cases [OF ka, where w = "world_of store_push" and api = drive_ex
        and f = "''f1''" and r = "()"
        and u = "\<lparr>up_id = ''f1'', md5Checksum = Some ''m2''\<rparr>",
        THEN conjunct2, THEN conjunct2, THEN conjunct1]
    by (simp add: mappedFileId_def truthy_str_def getDriveMap_def
        drive_ex_def world_of_def store_push_def)
  have c: "pushUpsert drive_ex note_c (world_of store_push) =
     (Inl (Error ''Backend Error''),
      \<lparr>db = store_push, drive = (), calls = [UpdateCall ''f2'' note_c]\<rparr>)"
    using pushUpsert_cases [OF kc, where w = "world_of store_push" and api = drive_ex
        and f = "''f2''" and r = "()" and e = "Error ''Backend Error''",
        THEN conjunct2, THEN conjunct1]
    by (simp add: mappedFileId_def truthy_str_def getDriveMap_def
        drive_ex_def world_of_def store_push_def)
  from b a c show ?thesis by simp
qed

text \<open>
  The runs of \<open>pushDelete\<close>, case by case: the file id comes from the mapping, else from
  the query by the note id; with a file id the delete is issued, and its outcome is taken
  as done or rethrown by the test on the error message.
\<close>

lemma pushDelete_cases:
  "(mappedFileId (db w) noteId = Some f \<and> deleteFile api f (drive w) = (dres, r) \<longrightarrow>
      pushDelete api noteId w =
        (if delete_settled dres
         then (Inr (), w\<lparr>drive := r, calls := calls w @ [DeleteCall f],
                 db := deleteDriveMap (db w) noteId\<rparr>)
         else (dres, w\<lparr>drive := r, calls := calls w @ [DeleteCall f]\<rparr>))) \<and>
   (mappedFileId (db w) noteId = None \<and>
      findNoteFileByNoteId api noteId (drive w) = (Inl e, r) \<longrightarrow>
      pushDelete api noteId w = (Inl e, w\<lparr>drive := r, calls := calls w @ [FindCall noteId]\<rparr>)) \<and>
   (mappedFileId (db w) noteId = None \<and>
      findNoteFileByNoteId api noteId (drive w) = (Inr found, r) \<and> truthy_str found = None \<longrightarrow>
      pushDelete api noteId w =
        (Inr (), w\<lparr>drive := r, calls := calls w @ [FindCall noteId],
           db := deleteDriveMap (db w) noteId\<rparr>)) \<and>
   (mappedFileId (db w) noteId = None \<and>
      findNoteFileByNoteId api noteId (drive w) = (Inr found, r) \<and> truthy_str found = Some f \<and>
      deleteFile api f r = (dres, r') \<longrightarrow>
      pushDelete api noteId w =
        (if delete_settled dres
         then (Inr (), w\<lparr>drive := r', calls := calls w @ [FindCall noteId, DeleteCall f],
                 db := deleteDriveMap (db w) noteId\<rparr>)
         else (dres, w\<lparr>drive := r', calls := calls w @ [FindCall noteId, DeleteCall f]\<rparr>)))"
  by (auto simp add: pushDelete_def deleteFile_caught_def mappedFileId_def delete_settled_def io_defs
      split: sum.splits error.splits)


text \<open>
  C6. The mapping of note \<open>g\<close> points at the file \<open>f4\<close>, and the remote delete of \<open>f4\<close>
  fails with a rate-limit error, which is no report of a missing file. \<open>pushDelete\<close>
  issues the delete, does not rethrow the error, since its message includes \<open>404\<close>, returns
  without error and removes the mapping of \<open>g\<close>.
\<close>

theorem delete_swallows_other_failure:
  "deleteFile drive_ex ''f4'' () = (Inl (Error ''Rate limit exceeded for project 14047''), ()) \<and>
   getDriveMap (db (world_of store_rate)) ''g'' =
     Some \<lparr>map_noteId = ''g'', driveFileId = ''f4'', md5 = None\<rparr> \<and>
   fst (pushDelete drive_ex ''g'' (world_of store_rate)) = Inr () \<and>
   calls (snd (pushDelete drive_ex ''g'' (world_of store_rate))) = [DeleteCall ''f4''] \<and>
   getDriveMap (db (snd (pushDelete drive_ex ''g'' (world_of store_rate)))) ''g'' = None"
  by (simp add: pushDelete_def deleteFile_caught_def deleteDriveMap_def getDriveMap_def
      truthy_str_def io_defs ex_defs)

lemma pushOp_outbox:
  "pushOp api p n w = (res, w') \<Longrightarrow>
   outbox (db w') =
     (case res of Inl e \<Rightarrow> outbox (db w) | Inr m \<Rightarrow> filter (\<lambda>q. opId q \<noteq> opId p) (outbox (db w)))"
  using keepsD [OF keeps_pushDelete [of outbox _ api], OF outbox_deleteDriveMap, of _ w]
    keepsD [OF keeps_pushUpsert [of outbox api], OF outbox_putDriveMap, of _ w]
  by (cases "optype p")
    (auto simp add: pushOp_def deleteOp_def io_defs
      split: sum.splits option.splits prod.splits if_splits)


lemma pushOps_outbox:
  "pushOps api ps n w = (Inr m, w') \<Longrightarrow>
   outbox (db w') = filter (\<lambda>q. opId q \<notin> opId ` set ps) (outbox (db w))"
proof (induction ps arbitrary: n w)
  case Nil
  then show ?case by (simp add: ret_def)
next
  case (Cons p ps)
  from Cons.prems obtain k w1 where
    p: "pushOp api p n w = (Inr k, w1)" and ps: "pushOps api ps k w1 = (Inr m, w')"
    by (auto simp add: andThen_def split: prod.splits sum.splits)
  from pushOp_outbox [OF p] Cons.IH [OF ps] show ?case
    by (simp add: conj_commute)
qed

lemma pushOps_append:
  "pushOps api (pre @ post) n w =
     (case pushOps api pre n w of (Inl e, w1) \<Rightarrow> (Inl e, w1) | (Inr m, w1) \<Rightarrow> pushOps api post m w1)"
  by (induction pre arbitrary: n w)
    (simp_all add: ret_def andThen_def split: prod.splits sum.splits)

lemma distinct_listOps:
  "distinct (map opId (outbox d)) \<Longrightarrow> distinct (map opId (listOps d))"
  by (simp add: listOps_def distinct_map)

lemma listOps_sorted:
  "sorted (map queuedAtMs (listOps d)) \<and> set (listOps d) = set (outbox d) \<and>
   length (listOps d) = length (outbox d)"
  by (simp add: listOps_def)

text \<open>
  The operation ids are the keys of the outbox, so they are distinct. Let the queue in
  \<open>queuedAtMs\<close> order be \<open>pre @ p # post\<close>, let the operations \<open>pre\<close> go through and
  let the step of \<open>p\<close> end with the error \<open>e\<close>. Then \<open>pushOutbox\<close> ends with \<open>e\<close> in
  the state the failed step left, that step has removed nothing from the outbox, and the
  queue is \<open>p # post\<close>. In every state, the step of an operation removes that operation,
  and nothing else, when it ends without error, and removes nothing when it ends with one.
\<close>

lemma pushOutbox_abort:
  assumes d: "distinct (map opId (outbox (db w)))"
    and l: "listOps (db w) = pre @ p # post"
    and ok: "pushOps api pre 0 w = (Inr n, w1)"
    and fail: "pushOp api p n w1 = (Inl e, w2)"
  shows "pushOutbox api w = (Inl e, w2) \<and> outbox (db w2) = outbox (db w1) \<and>
    listOps (db w2) = p # post \<and>
    (\<forall>q k v. outbox (db (snd (pushOp api q k v))) =
       (case fst (pushOp api q k v) of
          Inl _ \<Rightarrow> outbox (db v)
        | Inr _ \<Rightarrow> filter (\<lambda>x. opId x \<noteq> opId q) (outbox (db v))))"
proof -
  have step: "outbox (db (snd (pushOp api q k v))) =
       (case fst (pushOp api q k v) of
          Inl _ \<Rightarrow> outbox (db v)
        | Inr _ \<Rightarrow> filter (\<lambda>x. opId x \<noteq> opId q) (outbox (db v)))" for q k v
    using pushOp_outbox [of api q k v "fst (pushOp api q k v)" "snd (pushOp api q k v)"]
    by (simp split: sum.splits)
  have run: "pushOutbox api w = (Inl e, w2)"
    using l ok fail
    by (simp add: pushOutbox_def andThen_def db_read_def pushOps_append [of api pre "p # post"])
  have same: "outbox (db w2) = outbox (db w1)"
    using pushOp_outbox [OF fail] by simp
  have left: "outbox (db w2) = filter (\<lambda>q. opId q \<notin> opId ` set pre) (outbox (db w))"
    using same pushOps_outbox [OF ok] by simp
  have dist: "distinct (map opId (pre @ p # post))"
    using distinct_listOps [OF d] l by simp
  have "listOps (db w2) = filter (\<lambda>q. opId q \<notin> opId ` set pre) (listOps (db w))"
    using left by (simp add: listOps_def filter_sort)
  also have "\<dots> = p # post"
    using dist by (auto simp add: l filter_empty_conv filter_id_conv)
  finally show ?thesis using run same step by simp
qed


lemma pushOutbox_abort_example:
  "fst (pushOutbox drive_ex (world_of store_push)) = Inl (Error ''Backend Error'') \<and>
   listOps (db (snd (pushOutbox drive_ex (world_of store_push)))) = [op2, op3]"
proof -
  have d: "distinct (map opId (outbox (db (world_of store_push))))"
    by (simp add: ex_defs)
  have l: "listOps (db (world_of store_push)) = [op1] @ op2 # [op3]"
    by (simp add: listOps_def ex_defs)
  have k: "note_key note_a = Some ''a''" "note_key note_c = Some ''c''"
    by (simp_all add: note_key_def note_a_def note_c_def)
  have u1: "pushUpsert drive_ex note_a (world_of store_push) =
     (Inr (), \<lparr>db = putDriveMap store_push
                  \<lparr>map_noteId = ''a'', driveFileId = ''f1'', md5 = Some ''m2''\<rparr>,
              drive = (), calls = [UpdateCall ''f1'' note_a]\<rparr>)"
    using pushUpsert_mapped [OF k(1), where w = "world_of store_push" and api = drive_ex
        and f = "''f1''" and r = "()"
        and ures = "Inr \<lparr>up_id = ''f1'', md5Checksum = Some ''m2''\<rparr>"]
    by (simp add: mappedFileId_def truthy_str_def getDriveMap_def
        drive_ex_def world_of_def store_push_def)
  define w1 :: "unit world" where
    "w1 = \<lparr>db = deleteOp (putDriveMap store_push
                  \<lparr>map_noteId = ''a'', driveFileId = ''f1'', md5 = Some ''m2''\<rparr>) ''o1'',
              drive = (), calls = [UpdateCall ''f1'' note_a]\<rparr>"
  have ok: "pushOps drive_ex [op1] 0 (world_of store_push) = (Inr 1, w1)"
    using pushOp_upsert [where p = op1 and w = "world_of store_push" and nt = note_a
        and api = drive_ex and n = 0] u1
    by (simp add: w1_def andThen_def ret_def getNote_def op1_def world_of_def store_push_def note_a_def)
  have m: "mappedFileId (db w1) ''c'' = Some ''f2''"
    by (simp add: w1_def mappedFileId_def truthy_str_def getDriveMap_def deleteOp_def
        putDriveMap_def store_push_def)
  have u2: "pushUpsert drive_ex note_c w1 =
     (Inl (Error ''Backend Error''), w1\<lparr>drive := (), calls := calls w1 @ [UpdateCall ''f2'' note_c]\<rparr>)"
    using pushUpsert_mapped [OF k(2) m, where api = drive_ex and r = "()"
        and ures = "Inl (Error ''Backend Error'')"]
    by (simp add: drive_ex_def)
  have g: "getNote (db w1) (op_noteId op2) = Some note_c"
    by (simp add: w1_def getNote_def deleteOp_def putDriveMap_def store_push_def op2_def)
  have fail: "pushOp drive_ex op2 1 w1 =
     (Inl (Error ''Backend Error''), w1\<lparr>drive := (), calls := calls w1 @ [UpdateCall ''f2'' note_c]\<rparr>)"
    using pushOp_upsert [where p = op2 and w = w1 and nt = note_c and api = drive_ex and n = 1, OF _ g] u2
    by (simp add: op2_def note_c_def)
  from pushOutbox_abort [OF d l ok fail] show ?thesis by simp
qed

text \<open>
  C4. The queue of the store is the delete of note \<open>g\<close>, then the upsert of note \<open>a\<close>.
  The remote delete of the file of \<open>g\<close> fails with a rate-limit error. \<open>pushOutbox\<close> does
  not end with that error: it removes the delete operation, whose remote effect never took
  place, goes on to the upsert, returns 2 and leaves the queue empty.
\<close>

theorem push_goes_on_after_failed_delete:
  "listOps (db (world_of store_rate)) = [op_g, op1] \<and>
   deleteFile drive_ex ''f4'' () = (Inl (Error ''Rate limit exceeded for project 14047''), ()) \<and>
   fst (pushOutbox drive_ex (world_of store_rate)) = Inr 2 \<and>
   calls (snd (pushOutbox drive_ex (world_of store_rate))) =
     [DeleteCall ''f4'', UpdateCall ''f1'' note_a] \<and>
   listOps (db (snd (pushOutbox drive_ex (world_of store_rate)))) = []"
  by (simp add: pushOutbox_def pushOp_def pushDelete_def deleteFile_caught_def pushUpsert_def
      listOps_def deleteOp_def deleteDriveMap_def putDriveMap_def getDriveMap_def getNote_def
      note_key_def truthy_str_def noteFileName_def contentType_def io_defs ex_defs)

section \<open>Properties of the pull pipeline\<close>

text \<open>
  C3. With no cursor stored, \<open>pullChanges\<close> first merges the full listing. On the fresh
  store, with the one remote file of note \<open>b\<close> and no change after the start token, it
  creates the local note \<open>b\<close> and returns 0.
\<close>

theorem bootstrap_not_counted:
  "(case pullChanges drive_ex 1 (world_of store_fresh) of
      Some (Inr n, w') \<Rightarrow> n = 0 \<and> getNote (db w') ''b'' = Some note_b
    | _ \<Rightarrow> False) \<and>
   getNote (db (world_of store_fresh)) ''b'' = None"
  by (simp add: pullChanges_def ensureCursor_def mergeRemoteFile_def bootstrapFile_def
      not_note_props_def getMeta_def setMeta_def io_defs ex_defs note_key_def getNote_def
      mergeLastWriteWins_def putNote_def getDriveMap_def truthy_str_def putDriveMap_def)

lemma note_key_Some: "note_key n = Some k \<longleftrightarrow> n ''noteId'' = Some (JStr k)"
  by (auto simp add: note_key_def split: option.splits jsval.splits)

lemma note_key_merged:
  "note_key rn = Some k \<Longrightarrow> winner (mergeLastWriteWins local rn) = Remote \<Longrightarrow>
   note_key (merged (mergeLastWriteWins local rn)) = Some k"
  by (auto simp add: note_key_Some mergeLastWriteWins_def Let_def split: option.splits if_splits)

lemma syncMeta_putNote: "putNote d n = Inr d' \<Longrightarrow> syncMeta d' = syncMeta d"
  by (auto simp add: putNote_def split: option.splits)

lemma syncMeta_putDriveMap: "syncMeta (putDriveMap d m) = syncMeta d"
  by (simp add: putDriveMap_def)

lemma keeps_mergeRemoteFile: "keeps syncMeta (mergeRemoteFile api fid)"
  unfolding mergeRemoteFile_def Let_def
  by (auto intro!: keeps_intros keeps_db_write keeps_db_try
      simp add: syncMeta_putDriveMap syncMeta_putNote split: parsed.splits option.splits)

lemma keeps_pullChange: "keeps syncMeta (pullChange api ch n)"
  unfolding pullChange_def
  by (auto intro!: keeps_intros keeps_mergeRemoteFile split: option.splits)

lemma keeps_pullPage: "keeps syncMeta (pullPage api chs n)"
  by (induction chs arbitrary: n) (auto intro!: keeps_intros keeps_pullChange)

lemma pullPages_fail_meta:
  "pullPages api k cursor n w = Some (Inl e, w') \<Longrightarrow> syncMeta (db w') = syncMeta (db w)"
proof (induction k arbitrary: cursor n w)
  case 0
  then show ?case by simp
next
  case (Suc k)
  obtain res w1 where lc: "remote_call (ListChangesCall cursor) (listChanges api cursor) w = (res, w1)"
    by (cases "remote_call (ListChangesCall cursor) (listChanges api cursor) w")
  have m1: "syncMeta (db w1) = syncMeta (db w)"
    using keepsD [OF keeps_remote_call lc] .
  show ?case
  proof (cases res)
    case (Inl e1)
    with Suc.prems lc m1 show ?thesis by simp
  next
    case (Inr data)
    obtain res2 w2 where pp:
      "pullPage api (case changes data of None \<Rightarrow> [] | Some cs \<Rightarrow> cs) n w1 = (res2, w2)"
      by (cases "pullPage api (case changes data of None \<Rightarrow> [] | Some cs \<Rightarrow> cs) n w1")
    have m2: "syncMeta (db w2) = syncMeta (db w1)"
      using keepsD [OF keeps_pullPage pp] .
    show ?thesis
    proof (cases res2)
      case (Inl e2)
      with Suc.prems lc Inr pp m1 m2 show ?thesis by simp
    next
      case n2: (Inr n')
      show ?thesis
      proof (cases "truthy_str (nextPageToken data)")
        case None
        with Suc.prems lc Inr pp n2 show ?thesis
          by (simp split: option.splits)
      next
        case (Some t)
        with Suc.prems lc Inr pp n2 have "pullPages api k (JStr t) n' w2 = Some (Inl e, w')"
          by simp
        from Suc.IH [OF this] m1 m2 show ?thesis by simp
      qed
    qed
  qed
qed

text \<open>
  C7. When a cursor is stored and \<open>pullChanges\<close> ends with an error, the stored cursor is
  the one the pull started from: no page the failed pull has read is skipped by the next.
\<close>

theorem pull_failure_keeps_cursor:
  assumes c: "truthy (Some (getMeta (db w) cursorKey))"
    and f: "pullChanges api bound w = Some (Inl e, w')"
  shows "getMeta (db w') cursorKey = getMeta (db w) cursorKey"
proof -
  have "ensureCursor api w = (Inr (getMeta (db w) cursorKey), w)"
    using c by (simp add: ensureCursor_def io_defs)
  with f have "pullPages api bound (getMeta (db w) cursorKey) 0 w = Some (Inl e, w')"
    by (simp add: pullChanges_def)
  from pullPages_fail_meta [OF this] show ?thesis
    by (simp add: getMeta_def)
qed

lemma pull_c5:
  "\<exists>w'. pullChanges drive_ex 1 (world_of store_c5) =
       Some (Inl (Error ''Download failed (500).''), w') \<and>
     getNote (db w') ''b'' = Some note_b"
  by (simp add: pullChanges_def ensureCursor_def mergeRemoteFile_def pullChange_def is_removal_def
      not_note_props_def getMeta_def io_defs ex_defs note_key_def getNote_def
      mergeLastWriteWins_def putNote_def getDriveMap_def truthy_str_def putDriveMap_def)

theorem pull_failure_keeps_cursor_witness:
  "(case pullChanges drive_ex 1 (world_of store_c5) of
      Some (Inl e, w') \<Rightarrow>
        e = Error ''Download failed (500).'' \<and> getNote (db w') ''b'' = Some note_b \<and>
        getMeta (db w') cursorKey = JStr ''c5''
    | _ \<Rightarrow> False)"
proof -
  from pull_c5 obtain w' where
    run: "pullChanges drive_ex 1 (world_of store_c5) =
       Some (Inl (Error ''Download failed (500).''), w')"
    and nb: "getNote (db w') ''b'' = Some note_b"
    by blast
  have c: "truthy (Some (getMeta (db (world_of store_c5)) cursorKey))"
    by (simp add: getMeta_def world_of_def store_c5_def)
  have "getMeta (db w') cursorKey = JStr ''c5''"
    using pull_failure_keeps_cursor [OF c run]
    by (simp add: getMeta_def world_of_def store_c5_def)
  with nb show ?thesis
    unfolding run by simp
qed

lemma pullChange_removal:
  "is_removal ch \<Longrightarrow> pullChange api ch pulled w = (Inr pulled, w)"
  by (simp add: pullChange_def ret_def split: option.splits)

lemma pullPage_skip:
  "is_removal c \<Longrightarrow> pullPage api (c # cs) pulled w = pullPage api cs pulled w"
  by (simp add: andThen_def pullChange_removal)

lemma pullPage_cong:
  "(\<And>n v. pullPage api cs n v = pullPage api ds n v) \<Longrightarrow>
   pullPage api (c # cs) pulled w = pullPage api (c # ds) pulled w"
  by (simp add: andThen_def split: prod.splits sum.splits)

text \<open>
  C8. A change entry whose \<open>removed\<close> flag is set or whose file is trashed leaves the
  count and the whole state as they are, and the pull of a page gives the same result and
  the same state as the pull of the page without these entries.
\<close>

theorem removals_skipped:
  "(removed ch \<or> (\<exists>f. ch_file ch = Some f \<and> trashed f) \<longrightarrow>
      pullChange api ch pulled w = (Inr pulled, w)) \<and>
   pullPage api (filter (\<lambda>c. \<not> is_removal c) chs) pulled w = pullPage api chs pulled w"
proof
  show "removed ch \<or> (\<exists>f. ch_file ch = Some f \<and> trashed f) \<longrightarrow>
      pullChange api ch pulled w = (Inr pulled, w)"
    by (auto intro!: pullChange_removal simp add: is_removal_def)
  show "pullPage api (filter (\<lambda>c. \<not> is_removal c) chs) pulled w = pullPage api chs pulled w"
  proof (induction chs arbitrary: pulled w)
    case Nil
    show ?case by simp
  next
    case (Cons c cs)
    show ?case
    proof (cases "is_removal c")
      case True
      then show ?thesis
        using Cons.IH [of pulled w] by (simp only: filter.simps pullPage_skip if_True if_False not_True_eq_False)
    next
      case False
      then show ?thesis
        using pullPage_cong [of api "filter (\<lambda>c. \<not> is_removal c) cs" cs c pulled w] Cons.IH
        by (simp only: filter.simps if_True not_False_eq_True)
    qed
  qed
qed

theorem removals_skipped_witness:
  "pullChange drive_ex ch_removed 0 (world_of store_c1) = (Inr 0, world_of store_c1) \<and>
   pullPage drive_ex [ch_b] 0 (world_of store_c1) =
     pullPage drive_ex [ch_removed, ch_b] 0 (world_of store_c1)"
  using removals_skipped [of ch_removed drive_ex 0 "world_of store_c1" "[ch_removed, ch_b]"]
  by (simp add: is_removal_def ch_removed_def ch_b_def)

lemma mergeRemoteFile_mapping:
  assumes d: "downloadFile api fid (drive w) = (Inr raw, r)"
    and p: "JSON_parse api raw = JsonObject rn"
    and k: "note_key rn = Some noteId"
  shows "fst (mergeRemoteFile api fid w) =
      Inr (winner (mergeLastWriteWins (getNote (db w) noteId) rn) = Remote) \<and>
    getDriveMap (db (snd (mergeRemoteFile api fid w))) noteId =
      (case mappedFileId (db w) noteId of
         None \<Rightarrow> Some \<lparr>map_noteId = noteId, driveFileId = fid, md5 = None\<rparr>
       | Some f \<Rightarrow> getDriveMap (db w) noteId)"
  using d p k note_key_merged [OF k, of "noteStore (db w) noteId"]
  by (simp add: mergeRemoteFile_def io_defs putNote_def getDriveMap_def putDriveMap_def
      mappedFileId_def getNote_def split: option.splits)


text \<open>
  C9, as the claim states it, fails: with the mapping of note \<open>b\<close> at the file \<open>old\<close>,
  a pull that finds a newer copy of the note in the file \<open>f1\<close> downloads it, overwrites
  the local note and leaves the mapping at \<open>old\<close>.
\<close>

theorem mapping_not_repointed_counterexample:
  "(case pullChanges drive_ex 1 (world_of store_c1) of
      Some (Inr n, w') \<Rightarrow>
        n = 1 \<and> calls w' = [ListChangesCall (JStr ''c1''), DownloadCall ''f1''] \<and>
        getNote (db w') ''b'' = Some (note_b_old ++ note_b) \<and>
        getDriveMap (db w') ''b'' = Some \<lparr>map_noteId = ''b'', driveFileId = ''old'', md5 = None\<rparr>
    | _ \<Rightarrow> False)"
  by (simp add: pullChanges_def ensureCursor_def mergeRemoteFile_def pullChange_def is_removal_def
      not_note_props_def getMeta_def setMeta_def io_defs ex_defs note_key_def getNote_def
      mergeLastWriteWins_def putNote_def getDriveMap_def truthy_str_def putDriveMap_def)

text \<open>
  C9, amended. For a file with the id \<open>fid\<close> that is tagged as a note, in the bootstrap
  listing or in a change entry that is no removal, whose body parses as a note with the id
  \<open>noteId\<close>: the step succeeds, and afterwards the mapping of \<open>noteId\<close> points at
  \<open>fid\<close> if the store had no file id for \<open>noteId\<close> before, and is the mapping the
  store had otherwise.
\<close>

theorem mapping_ensured:
  assumes d: "downloadFile api fid (drive w) = (Inr raw, r)"
    and p: "JSON_parse api raw = JsonObject rn"
    and k: "note_key rn = Some noteId"
  shows
   "(df_id f = fid \<and> \<not> not_note_props (df_appProperties f) \<longrightarrow>
       fst (bootstrapFile api f w) = Inr () \<and>
       getDriveMap (db (snd (bootstrapFile api f w))) noteId =
         (case mappedFileId (db w) noteId of
            None \<Rightarrow> Some \<lparr>map_noteId = noteId, driveFileId = fid, md5 = None\<rparr>
          | Some g \<Rightarrow> getDriveMap (db w) noteId)) \<and>
    (truthy_str (fileId ch) = Some fid \<and> \<not> is_removal ch \<and>
       \<not> not_note_props (case ch_file ch of None \<Rightarrow> None | Some cf \<Rightarrow> appProperties cf) \<longrightarrow>
       (\<exists>n. fst (pullChange api ch pulled w) = Inr n) \<and>
       getDriveMap (db (snd (pullChange api ch pulled w))) noteId =
         (case mappedFileId (db w) noteId of
            None \<Rightarrow> Some \<lparr>map_noteId = noteId, driveFileId = fid, md5 = None\<rparr>
          | Some g \<Rightarrow> getDriveMap (db w) noteId))"
proof -
  obtain res w' where m: "mergeRemoteFile api fid w = (res, w')"
    by (cases "mergeRemoteFile api fid w")
  from mergeRemoteFile_mapping [OF d p k] m
  have r: "\<exists>b. res = Inr b" and g: "getDriveMap (db w') noteId =
         (case mappedFileId (db w) noteId of
            None \<Rightarrow> Some \<lparr>map_noteId = noteId, driveFileId = fid, md5 = None\<rparr>
          | Some g \<Rightarrow> getDriveMap (db w) noteId)"
    by simp_all
  from r obtain b where b: "res = Inr b" ..
  have boot: "df_id f = fid \<Longrightarrow> \<not> not_note_props (df_appProperties f) \<Longrightarrow>
      bootstrapFile api f w = (Inr (), w')"
    using m b by (simp add: bootstrapFile_def andThen_def ret_def)
  have pull: "truthy_str (fileId ch) = Some fid \<Longrightarrow> \<not> is_removal ch \<Longrightarrow>
      \<not> not_note_props (case ch_file ch of None \<Rightarrow> None | Some cf \<Rightarrow> appProperties cf) \<Longrightarrow>
      pullChange api ch pulled w = (Inr (if b then pulled + 1 else pulled), w')"
    using m b by (simp add: pullChange_def andThen_def ret_def)
  show ?thesis
    using boot pull g by auto
qed

theorem mapping_ensured_witness:
  "getDriveMap (db (snd (pullChange drive_ex ch_b 0 (world_of store_fresh)))) ''b'' =
     Some \<lparr>map_noteId = ''b'', driveFileId = ''f1'', md5 = None\<rparr> \<and>
   getDriveMap (db (snd (pullChange drive_ex ch_b 0 (world_of store_c1)))) ''b'' =
     Some \<lparr>map_noteId = ''b'', driveFileId = ''old'', md5 = None\<rparr> \<and>
   getDriveMap (db (snd (bootstrapFile drive_ex
       \<lparr>df_id = ''f1'', df_appProperties = Some (noteProps ''b'')\<rparr> (world_of store_fresh)))) ''b'' =
     Some \<lparr>map_noteId = ''b'', driveFileId = ''f1'', md5 = None\<rparr>"
proof -
  have d: "downloadFile drive_ex ''f1'' (drive (world_of st)) = (Inr raw_b, ())" for st
    by (simp add: drive_ex_def)
  have p: "JSON_parse drive_ex raw_b = JsonObject note_b"
    by (simp add: drive_ex_def)
  have k: "note_key note_b = Some ''b''"
    by (simp add: note_key_def note_b_def)
  have c: "truthy_str (fileId ch_b) = Some ''f1'' \<and> \<not> is_removal ch_b \<and>
       \<not> not_note_props (case ch_file ch_b of None \<Rightarrow> None | Some cf \<Rightarrow> appProperties cf)"
    by (simp add: ch_b_def truthy_str_def is_removal_def not_note_props_def noteProps_def)
  have "getDriveMap (db (snd (pullChange drive_ex ch_b 0 (world_of store_fresh)))) ''b'' =
     Some \<lparr>map_noteId = ''b'', driveFileId = ''f1'', md5 = None\<rparr>"
    using mapping_ensured [OF d [of store_fresh] p k, where ch = ch_b and pulled = 0,
        THEN conjunct2] c
    by (simp add: mappedFileId_def truthy_str_def getDriveMap_def world_of_def store_fresh_def)
  moreover have "getDriveMap (db (snd (pullChange drive_ex ch_b 0 (world_of store_c1)))) ''b'' =
     Some \<lparr>map_noteId = ''b'', driveFileId = ''old'', md5 = None\<rparr>"
    using mapping_ensured [OF d [of store_c1] p k, where ch = ch_b and pulled = 0,
        THEN conjunct2] c
    by (simp add: mappedFileId_def truthy_str_def getDriveMap_def world_of_def store_c1_def)
  moreover have "getDriveMap (db (snd (bootstrapFile drive_ex
       \<lparr>df_id = ''f1'', df_appProperties = Some (noteProps ''b'')\<rparr> (world_of store_fresh)))) ''b'' =
     Some \<lparr>map_noteId = ''b'', driveFileId = ''f1'', md5 = None\<rparr>"
    using mapping_ensured [OF d [of store_fresh] p k, where
        f = "\<lparr>df_id = ''f1'', df_appProperties = Some (noteProps ''b'')\<rparr>", THEN conjunct1]
    by (simp add: mappedFileId_def truthy_str_def getDriveMap_def world_of_def store_fresh_def
        not_note_props_def noteProps_def)
  ultimately show ?thesis by (intro conjI)
qed


end
